theory Spec2Isabelle
  imports Complex_Main "HOL-Library.AList"
begin

section \<open>JavaScript values, objects and JSX elements\<close>

text \<open>
  The program is one TypeScript/JSX module, \<^verbatim>\<open>src/App.tsx\<close>. Its material presets are object
  literals with differing sets of properties, and the component \<^verbatim>\<open>Shape\<close> receives them with
  type \<^verbatim>\<open>any\<close>, so the embedding keeps objects dynamic: an object is an association list from
  property names to values, in insertion order, and a missing property reads as
  \<^verbatim>\<open>undefined\<close>. Numbers are modelled as reals (the program only stores, compares with zero and
  passes them on; \<^verbatim>\<open>NaN\<close> and the infinities are not represented).
\<close>

datatype jsval =
    JUndefined
  | JBool bool
  | JNum real
  | JStr string
  | JArr "jsval list"
  | JColor jsval   \<comment> \<open>\<^verbatim>\<open>new THREE.Color(v)\<close>\<close>

type_synonym obj = "(string \<times> jsval) list"

text \<open>JavaScript truthiness, as used by \<^verbatim>\<open>||\<close>, \<^verbatim>\<open>&&\<close> and \<^verbatim>\<open>?:\<close>.\<close>

fun truthy :: "jsval \<Rightarrow> bool" where
  "truthy JUndefined = False"
| "truthy (JBool b) = b"
| "truthy (JNum x) = (x \<noteq> 0)"
| "truthy (JStr s) = (s \<noteq> [])"
| "truthy (JArr vs) = True"
| "truthy (JColor c) = True"

text \<open>\<^verbatim>\<open>a || b\<close>: the left operand when it is truthy, the right one otherwise.\<close>

definition js_or :: "jsval \<Rightarrow> jsval \<Rightarrow> jsval" where
  "js_or a b = (if truthy a then a else b)"

text \<open>Property read \<^verbatim>\<open>o.k\<close> (own properties only).\<close>

definition js_get :: "obj \<Rightarrow> string \<Rightarrow> jsval" where
  "js_get ps k = (case map_of ps k of None \<Rightarrow> JUndefined | Some v \<Rightarrow> v)"

text \<open>
  Object rest destructuring \<^verbatim>\<open>const { k1, ..., kn, ...rest } = o\<close>: \<open>rest\<close> holds the own
  properties of \<open>o\<close> other than the named ones, in their order.
\<close>

definition js_rest :: "string list \<Rightarrow> obj \<Rightarrow> obj" where
  "js_rest ks ps = fold AList.delete ks ps"

text \<open>
  JSX attributes \<^verbatim>\<open><t {...base} k1={v1} ... kn={vn} />\<close> build the props object
  \<^verbatim>\<open>{...base, k1: v1, ..., kn: vn}\<close>: a later attribute overwrites an earlier property of the
  same name in place, a new name is appended.
\<close>

definition jsx_attrs :: "obj \<Rightarrow> (string \<times> jsval) list \<Rightarrow> obj" where
  "jsx_attrs base attrs = fold (\<lambda>(k, v). AList.update k v) attrs base"

datatype element =
  Element (tag: string) (props: obj) (children: "element list")

definition get_prop :: "element \<Rightarrow> string \<Rightarrow> jsval" where
  "get_prop e k = js_get (props e) k"

definition has_prop :: "element \<Rightarrow> string \<Rightarrow> bool" where
  "has_prop e k = (map_of (props e) k \<noteq> None)"

text \<open>The error a render can end with: destructuring \<^verbatim>\<open>undefined\<close> throws a TypeError.\<close>

datatype error = TypeError

section \<open>The catalogs\<close>

text \<open>
  The three object literals \<^verbatim>\<open>materials\<close>, \<^verbatim>\<open>shapes\<close> and \<^verbatim>\<open>environments\<close>, in declaration order.
  \<^verbatim>\<open>Object.keys\<close> lists the own property names in insertion order (none of the names is an
  array index), and \<^verbatim>\<open>catalog[key]\<close> is \<^verbatim>\<open>undefined\<close> for a name that was not declared.
\<close>

definition materials :: "(string \<times> obj) list" where
  "materials = [
    (''chrome'', [
      (''name'', JStr ''Chrome''),
      (''category'', JStr ''metal''),
      (''color'', JStr ''#e8e8e8''),
      (''metalness'', JNum 1),
      (''roughness'', JNum 0.05),
      (''envMapIntensity'', JNum 1.5)]),
    (''gold'', [
      (''name'', JStr ''Gold''),
      (''category'', JStr ''metal''),
      (''color'', JStr ''#ffd700''),
      (''metalness'', JNum 1),
      (''roughness'', JNum 0.1),
      (''envMapIntensity'', JNum 1.2)]),
    (''copper'', [
      (''name'', JStr ''Copper''),
      (''category'', JStr ''metal''),
      (''color'', JStr ''#b87333''),
      (''metalness'', JNum 1),
      (''roughness'', JNum 0.15),
      (''envMapIntensity'', JNum 1.0)]),
    (''brushedSteel'', [
      (''name'', JStr ''Brushed Steel''),
      (''category'', JStr ''metal''),
      (''color'', JStr ''#8a8a8a''),
      (''metalness'', JNum 0.95),
      (''roughness'', JNum 0.35),
      (''envMapIntensity'', JNum 0.8)]),
    (''blackMetal'', [
      (''name'', JStr ''Anodized Black''),
      (''category'', JStr ''metal''),
      (''color'', JStr ''#1a1a1a''),
      (''metalness'', JNum 0.9),
      (''roughness'', JNum 0.2),
      (''envMapIntensity'', JNum 1.0)]),
    (''glossyPlastic'', [
      (''name'', JStr ''Glossy Plastic''),
      (''category'', JStr ''plastic''),
      (''color'', JStr ''#ff3366''),
      (''metalness'', JNum 0),
      (''roughness'', JNum 0.1),
      (''envMapIntensity'', JNum 0.8)]),
    (''mattePlastic'', [
      (''name'', JStr ''Matte Plastic''),
      (''category'', JStr ''plastic''),
      (''color'', JStr ''#3366ff''),
      (''metalness'', JNum 0),
      (''roughness'', JNum 0.7),
      (''envMapIntensity'', JNum 0.3)]),
    (''satin'', [
      (''name'', JStr ''Satin Finish''),
      (''category'', JStr ''plastic''),
      (''color'', JStr ''#33ff66''),
      (''metalness'', JNum 0),
      (''roughness'', JNum 0.4),
      (''envMapIntensity'', JNum 0.5)]),
    (''porcelain'', [
      (''name'', JStr ''Porcelain''),
      (''category'', JStr ''ceramic''),
      (''color'', JStr ''#f5f5f0''),
      (''metalness'', JNum 0),
      (''roughness'', JNum 0.15),
      (''envMapIntensity'', JNum 0.6)]),
    (''ceramic'', [
      (''name'', JStr ''Glazed Ceramic''),
      (''category'', JStr ''ceramic''),
      (''color'', JStr ''#2255aa''),
      (''metalness'', JNum 0.05),
      (''roughness'', JNum 0.08),
      (''envMapIntensity'', JNum 0.7)]),
    (''rubber'', [
      (''name'', JStr ''Rubber''),
      (''category'', JStr ''soft''),
      (''color'', JStr ''#222222''),
      (''metalness'', JNum 0),
      (''roughness'', JNum 0.9),
      (''envMapIntensity'', JNum 0.1)]),
    (''velvet'', [
      (''name'', JStr ''Velvet''),
      (''category'', JStr ''soft''),
      (''color'', JStr ''#660033''),
      (''metalness'', JNum 0),
      (''roughness'', JNum 0.95),
      (''envMapIntensity'', JNum 0.05)]),
    (''glass'', [
      (''name'', JStr ''Glass''),
      (''category'', JStr ''special''),
      (''color'', JStr ''#ffffff''),
      (''metalness'', JNum 0),
      (''roughness'', JNum 0),
      (''transmission'', JNum 0.95),
      (''thickness'', JNum 0.5),
      (''envMapIntensity'', JNum 1.0)]),
    (''emission'', [
      (''name'', JStr ''Emissive''),
      (''category'', JStr ''special''),
      (''color'', JStr ''#02d7f2''),
      (''metalness'', JNum 0),
      (''roughness'', JNum 0.5),
      (''emissive'', JStr ''#02d7f2''),
      (''emissiveIntensity'', JNum 2),
      (''envMapIntensity'', JNum 0.3)]),
    (''holographic'', [
      (''name'', JStr ''Holographic''),
      (''category'', JStr ''special''),
      (''color'', JStr ''#ff00ff''),
      (''metalness'', JNum 1),
      (''roughness'', JNum 0.1),
      (''iridescence'', JNum 1),
      (''iridescenceIOR'', JNum 1.5),
      (''envMapIntensity'', JNum 1.5)])]"

definition shapes :: "(string \<times> string) list" where
  "shapes = [
    (''sphere'', ''Sphere''),
    (''cube'', ''Cube''),
    (''roundedBox'', ''Rounded Box''),
    (''torus'', ''Torus''),
    (''torusKnot'', ''Torus Knot''),
    (''icosahedron'', ''Icosahedron''),
    (''octahedron'', ''Octahedron''),
    (''dodecahedron'', ''Dodecahedron'')]"

definition environments :: "(string \<times> string) list" where
  "environments = [
    (''studio'', ''studio''),
    (''city'', ''city''),
    (''sunset'', ''sunset''),
    (''dawn'', ''dawn''),
    (''night'', ''night''),
    (''forest'', ''forest''),
    (''apartment'', ''apartment''),
    (''warehouse'', ''warehouse''),
    (''park'', ''park''),
    (''lobby'', ''lobby'')]"

definition Object_keys :: "(string \<times> 'v) list \<Rightarrow> string list" where
  "Object_keys catalog = map fst catalog"

text \<open>\<^verbatim>\<open>catalog[key]\<close>; \<open>None\<close> stands for \<^verbatim>\<open>undefined\<close>.\<close>

definition lookup :: "(string \<times> 'v) list \<Rightarrow> string \<Rightarrow> 'v option" where
  "lookup catalog key = map_of catalog key"

section \<open>The component Shape\<close>

text \<open>
  The first half of \<^verbatim>\<open>Shape\<close> (the destructuring of \<^verbatim>\<open>materialProps\<close>, \<^verbatim>\<open>isPhysical\<close> and the
  constant \<^verbatim>\<open>material\<close>) is the material resolver: it chooses between
  \<^verbatim>\<open>meshPhysicalMaterial\<close> and \<^verbatim>\<open>meshStandardMaterial\<close> and builds the element's props.
  Destructuring \<^verbatim>\<open>undefined\<close> (what a lookup with an undeclared key yields) throws.
\<close>

definition Shape_material :: "obj option \<Rightarrow> error + element" where
  "Shape_material materialProps =
     (case materialProps of
        None \<Rightarrow> Inl TypeError
      | Some ps \<Rightarrow>
          (let transmission = js_get ps ''transmission'';
               thickness = js_get ps ''thickness'';
               emissive = js_get ps ''emissive'';
               emissiveIntensity = js_get ps ''emissiveIntensity'';
               iridescence = js_get ps ''iridescence'';
               iridescenceIOR = js_get ps ''iridescenceIOR'';
               baseProps = js_rest [''transmission'', ''thickness'', ''emissive'',
                 ''emissiveIntensity'', ''iridescence'', ''iridescenceIOR''] ps;
               isPhysical = js_or transmission iridescence
           in Inr (if truthy isPhysical
                then Element ''meshPhysicalMaterial''
                       (jsx_attrs baseProps [
                          (''transmission'', transmission),
                          (''thickness'', thickness),
                          (''iridescence'', iridescence),
                          (''iridescenceIOR'', iridescenceIOR)]) []
                else Element ''meshStandardMaterial''
                       (jsx_attrs baseProps [
                          (''emissive'', if truthy emissive then JColor emissive else JUndefined),
                          (''emissiveIntensity'', js_or emissiveIntensity (JNum 0))]) [])))"

text \<open>The \<^verbatim>\<open>switch (shape)\<close> of \<^verbatim>\<open>Shape\<close>, with the material element as the only child.\<close>

definition Shape_switch :: "string \<Rightarrow> element \<Rightarrow> element" where
  "Shape_switch shape material =
     (if shape = ''sphere'' then
        Element ''Sphere'' [(''args'', JArr [JNum 1, JNum 64, JNum 64])] [material]
      else if shape = ''cube'' then
        Element ''Box'' [(''args'', JArr [JNum 1.6, JNum 1.6, JNum 1.6])] [material]
      else if shape = ''roundedBox'' then
        Element ''RoundedBox'' [(''args'', JArr [JNum 1.5, JNum 1.5, JNum 1.5]),
          (''radius'', JNum 0.15), (''smoothness'', JNum 4)] [material]
      else if shape = ''torus'' then
        Element ''Torus'' [(''args'', JArr [JNum 0.8, JNum 0.35, JNum 32, JNum 64])] [material]
      else if shape = ''torusKnot'' then
        Element ''TorusKnot'' [(''args'', JArr [JNum 0.7, JNum 0.25, JNum 128, JNum 32])] [material]
      else if shape = ''icosahedron'' then
        Element ''Icosahedron'' [(''args'', JArr [JNum 1, JNum 0])] [material]
      else if shape = ''octahedron'' then
        Element ''Octahedron'' [(''args'', JArr [JNum 1.2, JNum 0])] [material]
      else if shape = ''dodecahedron'' then
        Element ''Dodecahedron'' [(''args'', JArr [JNum 1, JNum 0])] [material]
      else
        Element ''Sphere'' [(''args'', JArr [JNum 1, JNum 64, JNum 64])] [material])"

definition Shape :: "string \<Rightarrow> obj option \<Rightarrow> error + element" where
  "Shape shape materialProps =
     (case Shape_material materialProps of
        Inl e \<Rightarrow> Inl e
      | Inr material \<Rightarrow> Inr (Shape_switch shape material))"




section \<open>The component Scene\<close>

text \<open>
  \<^verbatim>\<open>Scene\<close> returns a fragment; its children are listed in order. The child \<^verbatim>\<open><Shape>\<close> is
  rendered in place, and an error thrown while rendering it ends the render of the whole scene
  (the program has no error boundary). \<^verbatim>\<open>{showEffects && <EffectComposer>...}\<close> contributes the
  element when \<^verbatim>\<open>showEffects\<close> is true and nothing otherwise. \<^verbatim>\<open>Math.PI\<close> is modelled as the
  real number \<open>pi\<close>.
\<close>

definition Scene :: "string \<Rightarrow> string \<Rightarrow> string \<Rightarrow> real \<Rightarrow> bool \<Rightarrow> error + element list" where
  "Scene shape materialKey environment envBlur showEffects =
     (let mat = lookup materials materialKey in
      case Shape shape mat of
        Inl e \<Rightarrow> Inl e
      | Inr object \<Rightarrow> Inr ([
          Element ''ambientLight'' [(''intensity'', JNum 0.2)] [],
          Element ''directionalLight'' [(''position'', JArr [JNum 5, JNum 5, JNum 5]),
            (''intensity'', JNum 0.5), (''castShadow'', JBool True)] [],
          Element ''directionalLight'' [(''position'', JArr [JNum (- 5), JNum 3, JNum (- 5)]),
            (''intensity'', JNum 0.3), (''color'', JStr ''#ff9966'')] [],
          Element ''Environment'' [(''key'', JStr environment), (''preset'', JStr environment),
            (''background'', JBool True), (''blur'', JNum envBlur)] [],
          Element ''Float'' [(''speed'', JNum 1.5), (''rotationIntensity'', JNum 0.5),
            (''floatIntensity'', JNum 0.5)] [object],
          Element ''ContactShadows'' [(''position'', JArr [JNum 0, JNum (- 1.5), JNum 0]),
            (''opacity'', JNum 0.5), (''scale'', JNum 8), (''blur'', JNum 2), (''far'', JNum 3)] [],
          Element ''OrbitControls'' [(''enablePan'', JBool False), (''minDistance'', JNum 2.5),
            (''maxDistance'', JNum 8), (''minPolarAngle'', JNum (pi / 6)),
            (''maxPolarAngle'', JNum (pi / 2)), (''autoRotate'', JBool True),
            (''autoRotateSpeed'', JNum 0.5)] []]
        @ (if showEffects then [
             Element ''EffectComposer'' [] [
               Element ''Bloom'' [(''luminanceThreshold'', JNum 0.8),
                 (''luminanceSmoothing'', JNum 0.9), (''intensity'', JNum 0.4)] [],
               Element ''Vignette'' [(''eskil'', JBool False), (''offset'', JNum 0.1),
                 (''darkness'', JNum 0.5)] []]]
           else [])))"

section \<open>The component App: selection state\<close>

text \<open>
  The seven \<^verbatim>\<open>useState\<close> hooks of \<^verbatim>\<open>App\<close> form the selection state; each setter replaces its
  own field with the value it is given.
\<close>

record app_state =
  currentMaterial :: string
  currentShape :: string
  currentEnv :: string
  envBlur :: real
  showEffects :: bool
  antialias :: bool
  panelOpen :: bool

definition init_state :: app_state where
  "init_state = \<lparr>currentMaterial = ''chrome'', currentShape = ''sphere'',
     currentEnv = ''studio'', envBlur = 0.6, showEffects = True, antialias = True,
     panelOpen = True\<rparr>"

definition setCurrentMaterial :: "string \<Rightarrow> app_state \<Rightarrow> app_state" where
  "setCurrentMaterial key s = s\<lparr>currentMaterial := key\<rparr>"

definition setCurrentShape :: "string \<Rightarrow> app_state \<Rightarrow> app_state" where
  "setCurrentShape key s = s\<lparr>currentShape := key\<rparr>"

definition setCurrentEnv :: "string \<Rightarrow> app_state \<Rightarrow> app_state" where
  "setCurrentEnv key s = s\<lparr>currentEnv := key\<rparr>"

definition setEnvBlur :: "real \<Rightarrow> app_state \<Rightarrow> app_state" where
  "setEnvBlur v s = s\<lparr>envBlur := v\<rparr>"

definition setShowEffects :: "bool \<Rightarrow> app_state \<Rightarrow> app_state" where
  "setShowEffects b s = s\<lparr>showEffects := b\<rparr>"

definition setAntialias :: "bool \<Rightarrow> app_state \<Rightarrow> app_state" where
  "setAntialias b s = s\<lparr>antialias := b\<rparr>"

definition setPanelOpen :: "bool \<Rightarrow> app_state \<Rightarrow> app_state" where
  "setPanelOpen b s = s\<lparr>panelOpen := b\<rparr>"

text \<open>
  The background-blur slider of \<^verbatim>\<open>App\<close>: an \<^verbatim>\<open><input type="range">\<close> whose \<^verbatim>\<open>onChange\<close> handler
  stores the parsed value with \<^verbatim>\<open>setEnvBlur\<close>. \<open>blur_onChange v\<close> is the handler applied to an
  event whose value parses to \<open>v\<close>.
\<close>

definition blur_slider :: "app_state \<Rightarrow> element" where
  "blur_slider s = Element ''input'' [(''type'', JStr ''range''), (''min'', JStr ''0''),
     (''max'', JStr ''1''), (''step'', JStr ''0.01''), (''value'', JNum (envBlur s))] []"

definition blur_onChange :: "real \<Rightarrow> app_state \<Rightarrow> app_state" where
  "blur_onChange v s = setEnvBlur v s"

text \<open>The \<^verbatim>\<open><Scene>\<close> that \<^verbatim>\<open>App\<close> places in its canvas, with the props taken from the state.\<close>

definition App_Scene :: "app_state \<Rightarrow> error + element list" where
  "App_Scene s = Scene (currentShape s) (currentMaterial s) (currentEnv s) (envBlur s)
     (showEffects s)"


section \<open>Vocabulary for the properties\<close>

text \<open>
  Vocabulary of the specification, used to compare it with the code: a feature value that is
  ``set (> 0)'', and a feature value that respects the documented range of the data model (absent,
  or a non-negative number).
\<close>

definition set_positive :: "jsval \<Rightarrow> bool" where
  "set_positive v = (case v of JNum x \<Rightarrow> 0 < x | _ \<Rightarrow> False)"

definition unset_or_nonneg :: "jsval \<Rightarrow> bool" where
  "unset_or_nonneg v = (case v of JUndefined \<Rightarrow> True | JNum x \<Rightarrow> 0 \<le> x | _ \<Rightarrow> False)"

text \<open>Reading a rendered scene: the children of a fragment with a given tag.\<close>

definition by_tag :: "string \<Rightarrow> element list \<Rightarrow> element list" where
  "by_tag t es = filter (\<lambda>e. tag e = t) es"

text \<open>The material elements of the floated object of a scene.\<close>

definition scene_materials :: "element list \<Rightarrow> element list" where
  "scene_materials sc = concat (map children (concat (map children (by_tag ''Float'' sc))))"

text \<open>Degrees to radians.\<close>

definition degToRad :: "real \<Rightarrow> real" where
  "degToRad d = d * pi / 180"

text \<open>
  The feature groups of the specification's data model: a preset populates a group when it
  declares one of the group's properties.
\<close>

datatype feature_group = TransmissionPath | IridescencePath | EmissiveGroup

definition has_key :: "obj \<Rightarrow> string \<Rightarrow> bool" where
  "has_key m k = (map_of m k \<noteq> None)"

definition feature_groups :: "obj \<Rightarrow> feature_group list" where
  "feature_groups m =
     (if has_key m ''transmission'' \<or> has_key m ''thickness'' then [TransmissionPath] else []) @
     (if has_key m ''iridescence'' \<or> has_key m ''iridescenceIOR'' then [IridescencePath] else []) @
     (if has_key m ''emissive'' \<or> has_key m ''emissiveIntensity'' then [EmissiveGroup] else [])"


section \<open>Auxiliary facts\<close>

lemma map_of_js_rest:
  "map_of (js_rest ks ps) k = (if k \<in> set ks then None else map_of ps k)"
  unfolding js_rest_def
  by (induction ks arbitrary: ps) (simp_all add: delete_conv')

lemma map_of_jsx_attrs2:
  "map_of (jsx_attrs base [(k1, v1), (k2, v2)]) =
     ((map_of base)(k1 \<mapsto> v1))(k2 \<mapsto> v2)"
  by (simp add: jsx_attrs_def update_conv')

lemma map_of_jsx_attrs4:
  "map_of (jsx_attrs base [(k1, v1), (k2, v2), (k3, v3), (k4, v4)]) =
     ((((map_of base)(k1 \<mapsto> v1))(k2 \<mapsto> v2))(k3 \<mapsto> v3))(k4 \<mapsto> v4)"
  by (simp add: jsx_attrs_def update_conv')

lemma nonneg_truthy_iff: "unset_or_nonneg v \<Longrightarrow> truthy v \<longleftrightarrow> set_positive v"
  by (cases v) (auto simp: set_positive_def unset_or_nonneg_def)

lemma Shape_material_Some:
  "\<exists>el. Shape_material (Some m) = Inr el"
  by (simp add: Shape_material_def Let_def)

lemma lookup_Object_keys:
  "k \<in> set (Object_keys catalog) \<Longrightarrow> \<exists>d. lookup catalog k = Some d"
  unfolding Object_keys_def lookup_def
  by (metis map_of_eq_None_iff not_Some_eq set_map)

lemma Scene_eq:
  assumes "Shape shape (lookup materials materialKey) = Inr object"
  shows "Scene shape materialKey environment blur fx = Inr ([
          Element ''ambientLight'' [(''intensity'', JNum 0.2)] [],
          Element ''directionalLight'' [(''position'', JArr [JNum 5, JNum 5, JNum 5]),
            (''intensity'', JNum 0.5), (''castShadow'', JBool True)] [],
          Element ''directionalLight'' [(''position'', JArr [JNum (- 5), JNum 3, JNum (- 5)]),
            (''intensity'', JNum 0.3), (''color'', JStr ''#ff9966'')] [],
          Element ''Environment'' [(''key'', JStr environment), (''preset'', JStr environment),
            (''background'', JBool True), (''blur'', JNum blur)] [],
          Element ''Float'' [(''speed'', JNum 1.5), (''rotationIntensity'', JNum 0.5),
            (''floatIntensity'', JNum 0.5)] [object],
          Element ''ContactShadows'' [(''position'', JArr [JNum 0, JNum (- 1.5), JNum 0]),
            (''opacity'', JNum 0.5), (''scale'', JNum 8), (''blur'', JNum 2), (''far'', JNum 3)] [],
          Element ''OrbitControls'' [(''enablePan'', JBool False), (''minDistance'', JNum 2.5),
            (''maxDistance'', JNum 8), (''minPolarAngle'', JNum (pi / 6)),
            (''maxPolarAngle'', JNum (pi / 2)), (''autoRotate'', JBool True),
            (''autoRotateSpeed'', JNum 0.5)] []]
        @ (if fx then [
             Element ''EffectComposer'' [] [
               Element ''Bloom'' [(''luminanceThreshold'', JNum 0.8),
                 (''luminanceSmoothing'', JNum 0.9), (''intensity'', JNum 0.4)] [],
               Element ''Vignette'' [(''eskil'', JBool False), (''offset'', JNum 0.1),
                 (''darkness'', JNum 0.5)] []]]
           else []))"
  using assms by (simp add: Scene_def)

lemma Shape_in_catalog:
  assumes "materialKey \<in> set (Object_keys materials)"
  shows "\<exists>object. Shape shape (lookup materials materialKey) = Inr object"
proof -
  obtain m where m: "lookup materials materialKey = Some m"
    using assms lookup_Object_keys by blast
  obtain el where "Shape_material (Some m) = Inr el"
    using Shape_material_Some by blast
  then show ?thesis by (simp add: m Shape_def)
qed

lemma feature_groups_catalog:
  "map (\<lambda>(k, m). (k, feature_groups m)) materials = [
     (''chrome'', []), (''gold'', []), (''copper'', []), (''brushedSteel'', []),
     (''blackMetal'', []), (''glossyPlastic'', []), (''mattePlastic'', []), (''satin'', []),
     (''porcelain'', []), (''ceramic'', []), (''rubber'', []), (''velvet'', []),
     (''glass'', [TransmissionPath]), (''emission'', [EmissiveGroup]),
     (''holographic'', [IridescencePath])]"
  by (simp add: materials_def feature_groups_def has_key_def)













section \<open>Properties\<close>

subsection \<open>Shading-model selection\<close>

text \<open>
  Claim C1 (shading-model selection). For every material definition of the data model, that is,
  every object whose \<^verbatim>\<open>transmission\<close> and \<^verbatim>\<open>iridescence\<close> are each absent or a non-negative
  number, the resolver returns an element that is \<^verbatim>\<open>meshPhysicalMaterial\<close> if and only if the
  transmission is set greater than 0 or the iridescence is set greater than 0, and
  \<^verbatim>\<open>meshStandardMaterial\<close> in every other case (purely emissive definitions included).
\<close>

theorem shading_model_selection:
  assumes "unset_or_nonneg (js_get m ''transmission'')"
    and "unset_or_nonneg (js_get m ''iridescence'')"
  shows "\<exists>el. Shape_material (Some m) = Inr el \<and>
     (tag el = ''meshPhysicalMaterial'' \<or> tag el = ''meshStandardMaterial'') \<and>
     (tag el = ''meshPhysicalMaterial'' \<longleftrightarrow>
        set_positive (js_get m ''transmission'') \<or> set_positive (js_get m ''iridescence'')) \<and>
     (tag el = ''meshStandardMaterial'' \<longleftrightarrow>
        \<not> (set_positive (js_get m ''transmission'') \<or> set_positive (js_get m ''iridescence'')))"
  using assms by (simp add: Shape_material_def Let_def js_or_def nonneg_truthy_iff)

text \<open>The statement at a transmissive and at a purely emissive definition.\<close>

theorem shading_model_selection_witness:
  "unset_or_nonneg (js_get [(''color'', JStr ''#ffffff''), (''transmission'', JNum 0.95), (''thickness'', JNum 0.5)] ''transmission'') \<and>
   unset_or_nonneg (js_get [(''color'', JStr ''#ffffff''), (''transmission'', JNum 0.95), (''thickness'', JNum 0.5)] ''iridescence'') \<and>
   (\<exists>el. Shape_material (Some [(''color'', JStr ''#ffffff''), (''transmission'', JNum 0.95), (''thickness'', JNum 0.5)]) = Inr el \<and> tag el = ''meshPhysicalMaterial'') \<and>
   unset_or_nonneg (js_get [(''color'', JStr ''#02d7f2''), (''emissive'', JStr ''#02d7f2''),
      (''emissiveIntensity'', JNum 2)] ''transmission'') \<and>
   unset_or_nonneg (js_get [(''color'', JStr ''#02d7f2''), (''emissive'', JStr ''#02d7f2''),
      (''emissiveIntensity'', JNum 2)] ''iridescence'') \<and>
   (\<exists>el. Shape_material (Some [(''color'', JStr ''#02d7f2''), (''emissive'', JStr ''#02d7f2''),
      (''emissiveIntensity'', JNum 2)]) = Inr el \<and> tag el = ''meshStandardMaterial'')"
proof -
  have g: "unset_or_nonneg (js_get [(''color'', JStr ''#ffffff''), (''transmission'', JNum 0.95), (''thickness'', JNum 0.5)] ''transmission'')"
      "unset_or_nonneg (js_get [(''color'', JStr ''#ffffff''), (''transmission'', JNum 0.95), (''thickness'', JNum 0.5)] ''iridescence'')"
    and e: "unset_or_nonneg (js_get [(''color'', JStr ''#02d7f2''), (''emissive'', JStr ''#02d7f2''),
      (''emissiveIntensity'', JNum 2)] ''transmission'')"
      "unset_or_nonneg (js_get [(''color'', JStr ''#02d7f2''), (''emissive'', JStr ''#02d7f2''),
      (''emissiveIntensity'', JNum 2)] ''iridescence'')"
    by (simp_all add: js_get_def unset_or_nonneg_def)
  have "\<exists>el. Shape_material (Some [(''color'', JStr ''#ffffff''), (''transmission'', JNum 0.95), (''thickness'', JNum 0.5)]) = Inr el \<and> tag el = ''meshPhysicalMaterial''"
    using shading_model_selection [OF g] by (auto simp: js_get_def set_positive_def)
  moreover have "\<exists>el. Shape_material (Some [(''color'', JStr ''#02d7f2''), (''emissive'', JStr ''#02d7f2''),
      (''emissiveIntensity'', JNum 2)]) = Inr el \<and> tag el = ''meshStandardMaterial''"
    using shading_model_selection [OF e] by (auto simp: js_get_def set_positive_def)
  ultimately show ?thesis
    using g e by (intro conjI)
qed

subsection \<open>Background blur\<close>

text \<open>
  Claim C2 (background blur), as the code has it. \<^verbatim>\<open>setEnvBlur\<close> is the plain state setter: after
  \<^verbatim>\<open>setEnvBlur(v)\<close> the stored blur is \<open>v\<close>, for every \<open>v\<close>, and so it is after the slider's
  \<^verbatim>\<open>onChange\<close> handler. The range [0, 1] appears only as the \<^verbatim>\<open>min\<close> and \<^verbatim>\<open>max\<close> attributes of
  the range input; for a value already in [0, 1] the stored blur equals \<open>min 1 (max 0 v)\<close>.
\<close>

theorem setEnvBlur_replaces:
  "envBlur (setEnvBlur v s) = v \<and> envBlur (blur_onChange v s) = v \<and>
   get_prop (blur_slider s) ''min'' = JStr ''0'' \<and>
   get_prop (blur_slider s) ''max'' = JStr ''1'' \<and>
   (0 \<le> v \<and> v \<le> 1 \<longrightarrow> envBlur (setEnvBlur v s) = min 1 (max 0 v))"
  by (simp add: setEnvBlur_def blur_onChange_def blur_slider_def get_prop_def js_get_def)

text \<open>The statement at a concrete input.\<close>

theorem setEnvBlur_replaces_witness:
  "(0::real) \<le> 0.25 \<and> (0.25::real) \<le> 1 \<and>
   envBlur (setEnvBlur 0.25 init_state) = min 1 (max 0 0.25)"
  using setEnvBlur_replaces [of "0.25" init_state] by simp

text \<open>
  The setter does not clamp: \<^verbatim>\<open>setEnvBlur(-0.5)\<close> stores -0.5, not 0, and \<^verbatim>\<open>setEnvBlur(1.7)\<close>
  stores 1.7, not 1.
\<close>

theorem setEnvBlur_no_clamp:
  "envBlur (setEnvBlur (- 0.5) init_state) = - 0.5 \<and>
   envBlur (setEnvBlur (- 0.5) init_state) \<noteq> min 1 (max 0 (- 0.5)) \<and>
   envBlur (setEnvBlur 1.7 init_state) = 1.7 \<and>
   envBlur (setEnvBlur 1.7 init_state) \<noteq> min 1 (max 0 1.7)"
  by (simp add: setEnvBlur_def)

subsection \<open>Emissive fields on the physical path\<close>

text \<open>
  Claim C3 (physical path drops the emissive fields). Every material object whose
  \<^verbatim>\<open>transmission\<close> or \<^verbatim>\<open>iridescence\<close> is truthy (in particular: set greater than 0) resolves, without
  error, to a \<^verbatim>\<open>meshPhysicalMaterial\<close> element whose props have neither an \<^verbatim>\<open>emissive\<close> nor an
  \<^verbatim>\<open>emissiveIntensity\<close> property, whatever emissive fields the object sets.
\<close>

theorem physical_drops_emissive:
  "truthy (js_get m ''transmission'') \<or> truthy (js_get m ''iridescence'') \<Longrightarrow>
   \<exists>el. Shape_material (Some m) = Inr el \<and> tag el = ''meshPhysicalMaterial'' \<and>
     \<not> has_prop el ''emissive'' \<and> \<not> has_prop el ''emissiveIntensity''"
  by (auto simp: Shape_material_def Let_def js_or_def has_prop_def map_of_jsx_attrs4
      map_of_js_rest)

text \<open>The statement at a concrete input.\<close>

theorem physical_drops_emissive_witness:
  "truthy (js_get [(''color'', JStr ''#ffffff''), (''transmission'', JNum 0.5),
      (''emissive'', JStr ''#ff0000''), (''emissiveIntensity'', JNum 2)] ''transmission'') \<and>
   (\<exists>el. Shape_material (Some [(''color'', JStr ''#ffffff''), (''transmission'', JNum 0.5),
      (''emissive'', JStr ''#ff0000''), (''emissiveIntensity'', JNum 2)]) = Inr el \<and>
     tag el = ''meshPhysicalMaterial'' \<and>
     \<not> has_prop el ''emissive'' \<and> \<not> has_prop el ''emissiveIntensity'')"
proof -
  have t: "truthy (js_get [(''color'', JStr ''#ffffff''), (''transmission'', JNum 0.5),
      (''emissive'', JStr ''#ff0000''), (''emissiveIntensity'', JNum 2)] ''transmission'')"
    by (simp add: js_get_def)
  from t physical_drops_emissive [OF disjI1, OF t] show ?thesis by (rule conjI)
qed

subsection \<open>Totality and determinism of the resolver\<close>



subsection \<open>Constants of the scene\<close>

text \<open>
  Claim C5 (fixed scene constants). For every shape, environment, blur and effects flag, and
  every material key of the catalog, the scene renders and contains: two directional lights of
  intensity 0.5 (key) and 0.3 (fill), one ambient light of intensity 0.2, orbit controls with
  distance bounds 2.5 and 8 and polar-angle bounds of 30 and 90 degrees (in radians), and the
  effect composer with bloom (luminance threshold 0.8, intensity 0.4) and vignette (darkness
  0.5) exactly when \<^verbatim>\<open>showEffects\<close> is true. None of these values depends on the state.
\<close>

theorem Scene_fixed_constants:
  assumes "materialKey \<in> set (Object_keys materials)"
  shows "\<exists>sc. Scene shape materialKey environment blur fx = Inr sc \<and>
     map (\<lambda>e. get_prop e ''intensity'') (by_tag ''directionalLight'' sc) = [JNum 0.5, JNum 0.3] \<and>
     map (\<lambda>e. get_prop e ''intensity'') (by_tag ''ambientLight'' sc) = [JNum 0.2] \<and>
     map (\<lambda>e. (get_prop e ''minDistance'', get_prop e ''maxDistance''))
       (by_tag ''OrbitControls'' sc) = [(JNum 2.5, JNum 8)] \<and>
     map (\<lambda>e. (get_prop e ''minPolarAngle'', get_prop e ''maxPolarAngle''))
       (by_tag ''OrbitControls'' sc) = [(JNum (degToRad 30), JNum (degToRad 90))] \<and>
     by_tag ''EffectComposer'' sc =
       (if fx then [
          Element ''EffectComposer'' [] [
            Element ''Bloom'' [(''luminanceThreshold'', JNum 0.8),
              (''luminanceSmoothing'', JNum 0.9), (''intensity'', JNum 0.4)] [],
            Element ''Vignette'' [(''eskil'', JBool False), (''offset'', JNum 0.1),
              (''darkness'', JNum 0.5)] []]]
        else [])"
proof -
  obtain object where "Shape shape (lookup materials materialKey) = Inr object"
    using assms Shape_in_catalog by blast
  then show ?thesis
    by (simp add: Scene_eq by_tag_def get_prop_def js_get_def degToRad_def)
qed

text \<open>The statement at a concrete input.\<close>

theorem Scene_fixed_constants_witness:
  "''chrome'' \<in> set (Object_keys materials) \<and>
   (\<exists>sc. Scene ''sphere'' ''chrome'' ''studio'' 0.6 True = Inr sc \<and>
     map (\<lambda>e. get_prop e ''intensity'') (by_tag ''directionalLight'' sc) = [JNum 0.5, JNum 0.3] \<and>
     map (\<lambda>e. get_prop e ''intensity'') (by_tag ''ambientLight'' sc) = [JNum 0.2] \<and>
     map (\<lambda>e. (get_prop e ''minDistance'', get_prop e ''maxDistance''))
       (by_tag ''OrbitControls'' sc) = [(JNum 2.5, JNum 8)] \<and>
     map (\<lambda>e. (get_prop e ''minPolarAngle'', get_prop e ''maxPolarAngle''))
       (by_tag ''OrbitControls'' sc) = [(JNum (degToRad 30), JNum (degToRad 90))] \<and>
     map tag (by_tag ''EffectComposer'' sc) = [''EffectComposer''])"
proof -
  have k: "''chrome'' \<in> set (Object_keys materials)"
    by (simp add: Object_keys_def materials_def)
  from Scene_fixed_constants [OF k, of "''sphere''" "''studio''" "0.6" True] k show ?thesis
    by auto
qed

subsection \<open>Initial state\<close>

text \<open>
  Claim C6 (initial state). The initial state is material chrome, shape sphere, environment
  studio, blur 0.6, effects on, antialias on, panel open; the scene of that state renders, its
  object carries one \<^verbatim>\<open>meshStandardMaterial\<close> with metalness 1, roughness 0.05 and
  \<^verbatim>\<open>envMapIntensity\<close> 1.5, and the effect composer is included.
\<close>

theorem initial_state_scene:
  "init_state = \<lparr>currentMaterial = ''chrome'', currentShape = ''sphere'',
     currentEnv = ''studio'', envBlur = 0.6, showEffects = True, antialias = True,
     panelOpen = True\<rparr> \<and>
   (\<exists>sc. App_Scene init_state = Inr sc \<and>
      map (\<lambda>e. (tag e, get_prop e ''metalness'', get_prop e ''roughness'',
                 get_prop e ''envMapIntensity'')) (scene_materials sc) =
        [(''meshStandardMaterial'', JNum 1.0, JNum 0.05, JNum 1.5)] \<and>
      map tag (by_tag ''EffectComposer'' sc) = [''EffectComposer''])"
proof -
  have "Shape ''sphere'' (lookup materials ''chrome'') =
      Inr (Element ''Sphere'' [(''args'', JArr [JNum 1, JNum 64, JNum 64])] [
        Element ''meshStandardMaterial''
          [(''name'', JStr ''Chrome''), (''category'', JStr ''metal''),
           (''color'', JStr ''#e8e8e8''), (''metalness'', JNum 1),
           (''roughness'', JNum 0.05), (''envMapIntensity'', JNum 1.5),
           (''emissive'', JUndefined), (''emissiveIntensity'', JNum 0)] []])"
    by (simp add: Shape_def Shape_switch_def Shape_material_def Let_def js_or_def js_get_def
        js_rest_def jsx_attrs_def lookup_def materials_def)
  then show ?thesis
    by (simp add: init_state_def App_Scene_def Scene_eq by_tag_def scene_materials_def
        get_prop_def js_get_def)
qed

subsection \<open>Catalog closure\<close>

text \<open>
  Claim C7 (catalog closure). In each of the three catalogs, the lookup of every key listed by
  \<^verbatim>\<open>Object.keys\<close> of that catalog yields a definition, and \<^verbatim>\<open>Object.keys\<close> lists the keys in
  declaration order.
\<close>

theorem catalog_closure:
  "(\<forall>k \<in> set (Object_keys materials). \<exists>d. lookup materials k = Some d) \<and>
   (\<forall>k \<in> set (Object_keys shapes). \<exists>d. lookup shapes k = Some d) \<and>
   (\<forall>k \<in> set (Object_keys environments). \<exists>d. lookup environments k = Some d) \<and>
   Object_keys materials = [''chrome'', ''gold'', ''copper'', ''brushedSteel'', ''blackMetal'',
     ''glossyPlastic'', ''mattePlastic'', ''satin'', ''porcelain'', ''ceramic'', ''rubber'',
     ''velvet'', ''glass'', ''emission'', ''holographic''] \<and>
   Object_keys shapes = [''sphere'', ''cube'', ''roundedBox'', ''torus'', ''torusKnot'',
     ''icosahedron'', ''octahedron'', ''dodecahedron''] \<and>
   Object_keys environments = [''studio'', ''city'', ''sunset'', ''dawn'', ''night'', ''forest'',
     ''apartment'', ''warehouse'', ''park'', ''lobby'']"
proof -
  have "Object_keys materials = [''chrome'', ''gold'', ''copper'', ''brushedSteel'', ''blackMetal'',
     ''glossyPlastic'', ''mattePlastic'', ''satin'', ''porcelain'', ''ceramic'', ''rubber'',
     ''velvet'', ''glass'', ''emission'', ''holographic'']"
    by (simp add: Object_keys_def materials_def)
  moreover have "Object_keys shapes = [''sphere'', ''cube'', ''roundedBox'', ''torus'',
     ''torusKnot'', ''icosahedron'', ''octahedron'', ''dodecahedron'']"
    by (simp add: Object_keys_def shapes_def)
  moreover have "Object_keys environments = [''studio'', ''city'', ''sunset'', ''dawn'',
     ''night'', ''forest'', ''apartment'', ''warehouse'', ''park'', ''lobby'']"
    by (simp add: Object_keys_def environments_def)
  moreover have "\<forall>k \<in> set (Object_keys materials). \<exists>d. lookup materials k = Some d"
    and "\<forall>k \<in> set (Object_keys shapes). \<exists>d. lookup shapes k = Some d"
    and "\<forall>k \<in> set (Object_keys environments). \<exists>d. lookup environments k = Some d"
    using lookup_Object_keys by blast+
  ultimately show ?thesis
    by (intro conjI)
qed

text \<open>The statement at a concrete input.\<close>

theorem catalog_closure_witness:
  "''glass'' \<in> set (Object_keys materials) \<and> (\<exists>d. lookup materials ''glass'' = Some d) \<and>
   ''torusKnot'' \<in> set (Object_keys shapes) \<and> lookup shapes ''torusKnot'' = Some ''Torus Knot'' \<and>
   ''night'' \<in> set (Object_keys environments) \<and> lookup environments ''night'' = Some ''night''"
proof -
  have m: "''glass'' \<in> set (Object_keys materials)"
    using catalog_closure by simp
  have s: "''torusKnot'' \<in> set (Object_keys shapes)"
    using catalog_closure by simp
  have e: "''night'' \<in> set (Object_keys environments)"
    using catalog_closure by simp
  have "\<exists>d. lookup materials ''glass'' = Some d"
    using catalog_closure m by blast
  moreover have "lookup shapes ''torusKnot'' = Some ''Torus Knot''"
    by (simp add: lookup_def shapes_def)
  moreover have "lookup environments ''night'' = Some ''night''"
    by (simp add: lookup_def environments_def)
  ultimately show ?thesis
    using m s e by (intro conjI)
qed

subsection \<open>Emissive props on the standard path\<close>

text \<open>
  Claim C8 (emissive props of the standard path), as the code has it. Every material object
  resolved to \<^verbatim>\<open>meshStandardMaterial\<close> gets \<^verbatim>\<open>emissiveIntensity || 0\<close>: its own
  \<^verbatim>\<open>emissiveIntensity\<close> when that is truthy and 0 otherwise, whether or not \<^verbatim>\<open>emissive\<close> is set;
  and it gets \<^verbatim>\<open>emissive\<close> as a \<^verbatim>\<open>THREE.Color\<close> of the object's \<^verbatim>\<open>emissive\<close> when that is truthy
  and \<^verbatim>\<open>undefined\<close> otherwise.
\<close>

theorem standard_emissive_passthrough:
  "\<not> truthy (js_get m ''transmission'') \<Longrightarrow> \<not> truthy (js_get m ''iridescence'') \<Longrightarrow>
   \<exists>el. Shape_material (Some m) = Inr el \<and> tag el = ''meshStandardMaterial'' \<and>
     get_prop el ''emissiveIntensity'' =
       (if truthy (js_get m ''emissiveIntensity'') then js_get m ''emissiveIntensity'' else JNum 0) \<and>
     get_prop el ''emissive'' =
       (if truthy (js_get m ''emissive'') then JColor (js_get m ''emissive'') else JUndefined)"
  by (simp add: Shape_material_def Let_def js_or_def get_prop_def map_of_jsx_attrs2
      js_get_def [of "jsx_attrs _ _"])

text \<open>The statement at a concrete input.\<close>

theorem standard_emissive_passthrough_witness:
  "\<not> truthy (js_get [(''color'', JStr ''#e8e8e8''), (''metalness'', JNum 1)] ''transmission'') \<and>
   \<not> truthy (js_get [(''color'', JStr ''#e8e8e8''), (''metalness'', JNum 1)] ''iridescence'') \<and>
   (\<exists>el. Shape_material (Some [(''color'', JStr ''#e8e8e8''), (''metalness'', JNum 1)]) = Inr el \<and>
      tag el = ''meshStandardMaterial'' \<and>
      get_prop el ''emissiveIntensity'' = JNum 0 \<and>
      get_prop el ''emissive'' = JUndefined)"
proof -
  have t: "\<not> truthy (js_get [(''color'', JStr ''#e8e8e8''), (''metalness'', JNum 1)] ''transmission'')"
    and i: "\<not> truthy (js_get [(''color'', JStr ''#e8e8e8''), (''metalness'', JNum 1)] ''iridescence'')"
    by (simp_all add: js_get_def)
  from standard_emissive_passthrough [OF t i] have "\<exists>el. Shape_material (Some [(''color'', JStr ''#e8e8e8''), (''metalness'', JNum 1)]) = Inr el \<and>
      tag el = ''meshStandardMaterial'' \<and>
      get_prop el ''emissiveIntensity'' = JNum 0 \<and>
      get_prop el ''emissive'' = JUndefined"
    by (simp add: js_get_def)
  with t i show ?thesis by blast
qed

text \<open>
  An object that sets \<^verbatim>\<open>emissiveIntensity\<close> and no \<^verbatim>\<open>emissive\<close> colour resolves to the standard
  material with that intensity, not with 0.
\<close>

theorem standard_emissiveIntensity_without_color:
  "Shape_material (Some [(''color'', JStr ''#02d7f2''), (''emissiveIntensity'', JNum 2)]) =
     Inr (Element ''meshStandardMaterial''
       [(''color'', JStr ''#02d7f2''), (''emissive'', JUndefined),
        (''emissiveIntensity'', JNum 2)] []) \<and>
   js_get [(''color'', JStr ''#02d7f2''), (''emissiveIntensity'', JNum 2)] ''emissive'' = JUndefined \<and>
   get_prop (Element ''meshStandardMaterial''
       [(''color'', JStr ''#02d7f2''), (''emissive'', JUndefined),
        (''emissiveIntensity'', JNum 2)] []) ''emissiveIntensity'' \<noteq> JNum 0"
  by (simp add: Shape_material_def Let_def js_or_def js_get_def js_rest_def jsx_attrs_def
      get_prop_def)

subsection \<open>Feature groups of the catalog\<close>

text \<open>
  Claim C9 (one feature group per preset). Every entry of the material catalog populates at most
  one feature group: glass the transmission group only, emission the emissive group only,
  holographic the iridescence group only, and every other entry none.
\<close>

theorem catalog_single_feature_group:
  "\<forall>(k, m) \<in> set materials.
     length (feature_groups m) \<le> 1 \<and>
     feature_groups m =
       (if k = ''glass'' then [TransmissionPath]
        else if k = ''emission'' then [EmissiveGroup]
        else if k = ''holographic'' then [IridescencePath]
        else [])"
proof -
  have "\<forall>(k, g) \<in> set (map (\<lambda>(k, m). (k, feature_groups m)) materials).
     length g \<le> 1 \<and>
     g = (if k = ''glass'' then [TransmissionPath]
        else if k = ''emission'' then [EmissiveGroup]
        else if k = ''holographic'' then [IridescencePath]
        else [])"
    unfolding feature_groups_catalog by simp
  then show ?thesis by auto
qed

text \<open>The statement at a concrete input.\<close>

theorem catalog_single_feature_group_witness:
  "(''holographic'', [
      (''name'', JStr ''Holographic''),
      (''category'', JStr ''special''),
      (''color'', JStr ''#ff00ff''),
      (''metalness'', JNum 1),
      (''roughness'', JNum 0.1),
      (''iridescence'', JNum 1),
      (''iridescenceIOR'', JNum 1.5),
      (''envMapIntensity'', JNum 1.5)]) \<in> set materials \<and>
   feature_groups [
      (''name'', JStr ''Holographic''),
      (''category'', JStr ''special''),
      (''color'', JStr ''#ff00ff''),
      (''metalness'', JNum 1),
      (''roughness'', JNum 0.1),
      (''iridescence'', JNum 1),
      (''iridescenceIOR'', JNum 1.5),
      (''envMapIntensity'', JNum 1.5)] = [IridescencePath]"
proof -
  have k: "(''holographic'', [
      (''name'', JStr ''Holographic''),
      (''category'', JStr ''special''),
      (''color'', JStr ''#ff00ff''),
      (''metalness'', JNum 1),
      (''roughness'', JNum 0.1),
      (''iridescence'', JNum 1),
      (''iridescenceIOR'', JNum 1.5),
      (''envMapIntensity'', JNum 1.5)]) \<in> set materials"
    by (simp add: materials_def)
  from bspec [OF catalog_single_feature_group k] k show ?thesis by simp
qed

subsection \<open>Default branch of the shape switch\<close>

text \<open>
  Claim C10 (default branch of the shape switch). For every shape value that is not one of the
  eight keys of \<^verbatim>\<open>shapes\<close>, and every material that resolves, \<^verbatim>\<open>Shape\<close> returns the sphere with
  args [1, 64, 64] and the resolved material as its child.
\<close>

theorem Shape_default_branch:
  "shape \<notin> set (Object_keys shapes) \<Longrightarrow> Shape_material materialProps = Inr material \<Longrightarrow>
   Shape shape materialProps =
     Inr (Element ''Sphere'' [(''args'', JArr [JNum 1, JNum 64, JNum 64])] [material])"
  by (simp add: Shape_def Shape_switch_def Object_keys_def shapes_def)

text \<open>The statement at a concrete input.\<close>

theorem Shape_default_branch_witness:
  "''pyramid'' \<notin> set (Object_keys shapes) \<and>
   Shape_material (Some [(''color'', JStr ''#e8e8e8''), (''metalness'', JNum 1)]) =
     Inr (Element ''meshStandardMaterial'' [(''color'', JStr ''#e8e8e8''), (''metalness'', JNum 1),
       (''emissive'', JUndefined), (''emissiveIntensity'', JNum 0)] []) \<and>
   Shape ''pyramid'' (Some [(''color'', JStr ''#e8e8e8''), (''metalness'', JNum 1)]) =
     Inr (Element ''Sphere'' [(''args'', JArr [JNum 1, JNum 64, JNum 64])] [
       Element ''meshStandardMaterial'' [(''color'', JStr ''#e8e8e8''), (''metalness'', JNum 1),
         (''emissive'', JUndefined), (''emissiveIntensity'', JNum 0)] []])"
proof -
  have k: "''pyramid'' \<notin> set (Object_keys shapes)"
    by (simp add: Object_keys_def shapes_def)
  have m: "Shape_material (Some [(''color'', JStr ''#e8e8e8''), (''metalness'', JNum 1)]) =
     Inr (Element ''meshStandardMaterial'' [(''color'', JStr ''#e8e8e8''), (''metalness'', JNum 1),
       (''emissive'', JUndefined), (''emissiveIntensity'', JNum 0)] [])"
    by (simp add: Shape_material_def Let_def js_or_def js_get_def js_rest_def jsx_attrs_def)
  from k m Shape_default_branch [OF k m] show ?thesis by (intro conjI)
qed

end
